theory Spec2Isabelle
  imports Main
begin

section \<open>MediFlow chat front-end: the session-identity protocol of app.py\<close>

text \<open>
  The development embeds \<^verbatim>\<open>chat_fn\<close>, \<^verbatim>\<open>run_agent_sync\<close> and
  \<^verbatim>\<open>_send_and_get_final_response_async\<close> of \<^verbatim>\<open>src/app.py\<close>.
  Python values are a datatype, a raised exception is the left injection of a sum, and
  everything the agent runtime, asyncio and uuid do is read from an explicit record of
  outcomes, one field per call site.
\<close>

subsection \<open>Python values and exceptions\<close>

text \<open>
  The history argument is untrusted and dynamically typed: it may be \<^verbatim>\<open>None\<close>, a
  list, or anything else, and its entries may be of any shape.
\<close>

datatype pyval =
    PNone
  | PBool bool
  | PInt int
  | PStr string
  | PList "pyval list"
  | PTuple "pyval list"
  | PDict "(pyval \<times> pyval) list"

text \<open>
  Exceptions are those deriving from \<^verbatim>\<open>Exception\<close>. Only membership in
  \<^verbatim>\<open>RuntimeError\<close> is ever tested by the source. An exception carries what
  \<^verbatim>\<open>str(exc)\<close> and \<^verbatim>\<open>traceback.format_exc()\<close> print for it.
\<close>

datatype exn_class = RuntimeError | TypeError | IndexError | KeyError | OtherException

datatype py_exn = Exn (exn_class: exn_class) (exn_str: string) (exn_tb: string)

definition bind_e :: "py_exn + 'a \<Rightarrow> ('a \<Rightarrow> py_exn + 'b) \<Rightarrow> py_exn + 'b" where
  "bind_e m f = (case m of Inl e \<Rightarrow> Inl e | Inr x \<Rightarrow> f x)"

text \<open>Python's short-circuit \<^verbatim>\<open>and\<close> on conditions that may raise.\<close>

definition and_e :: "py_exn + bool \<Rightarrow> py_exn + bool \<Rightarrow> py_exn + bool" where
  "and_e a b = bind_e a (\<lambda>x. if x then b else Inr False)"

definition type_error :: "string \<Rightarrow> py_exn" where
  "type_error m = Exn TypeError m []"

definition index_error :: "string \<Rightarrow> py_exn" where
  "index_error m = Exn IndexError m []"

fun py_truthy :: "pyval \<Rightarrow> bool" where
  "py_truthy PNone = False"
| "py_truthy (PBool b) = b"
| "py_truthy (PInt i) = (i \<noteq> 0)"
| "py_truthy (PStr s) = (s \<noteq> [])"
| "py_truthy (PList xs) = (xs \<noteq> [])"
| "py_truthy (PTuple xs) = (xs \<noteq> [])"
| "py_truthy (PDict kvs) = (kvs \<noteq> [])"

fun isinstance_list :: "pyval \<Rightarrow> bool" where
  "isinstance_list (PList xs) = True"
| "isinstance_list v = False"

fun isinstance_list_or_tuple :: "pyval \<Rightarrow> bool" where
  "isinstance_list_or_tuple (PList xs) = True"
| "isinstance_list_or_tuple (PTuple xs) = True"
| "isinstance_list_or_tuple v = False"

fun isinstance_str :: "pyval \<Rightarrow> bool" where
  "isinstance_str (PStr s) = True"
| "isinstance_str v = False"

fun py_len :: "pyval \<Rightarrow> py_exn + nat" where
  "py_len (PStr s) = Inr (length s)"
| "py_len (PList xs) = Inr (length xs)"
| "py_len (PTuple xs) = Inr (length xs)"
| "py_len (PDict kvs) = Inr (length kvs)"
| "py_len v = Inl (type_error ''object has no len()'')"

text \<open>\<^verbatim>\<open>xs[i]\<close> for a non-negative index on a Python list.\<close>

definition list_getitem :: "'a list \<Rightarrow> nat \<Rightarrow> py_exn + 'a" where
  "list_getitem xs i =
     (if i < length xs then Inr (xs ! i) else Inl (index_error ''index out of range''))"

fun py_getitem :: "pyval \<Rightarrow> nat \<Rightarrow> py_exn + pyval" where
  "py_getitem (PList xs) i = list_getitem xs i"
| "py_getitem (PTuple xs) i = list_getitem xs i"
| "py_getitem (PStr s) i = bind_e (list_getitem s i) (\<lambda>c. Inr (PStr [c]))"
| "py_getitem (PDict kvs) i =
     (case map_of kvs (PInt (int i)) of
        None \<Rightarrow> Inl (Exn KeyError ''key'' [])
      | Some v \<Rightarrow> Inr v)"
| "py_getitem v i = Inl (type_error ''object is not subscriptable'')"

text \<open>\<^verbatim>\<open>v[1:]\<close>: slicing never fails on a sequence.\<close>

fun py_slice_from1 :: "pyval \<Rightarrow> py_exn + pyval" where
  "py_slice_from1 (PList xs) = Inr (PList (drop 1 xs))"
| "py_slice_from1 (PTuple xs) = Inr (PTuple (drop 1 xs))"
| "py_slice_from1 (PStr s) = Inr (PStr (drop 1 s))"
| "py_slice_from1 v = Inl (type_error ''object is not subscriptable'')"

definition startswith :: "string \<Rightarrow> string \<Rightarrow> bool" where
  "startswith s p = (take (length p) s = p)"

fun py_startswith :: "pyval \<Rightarrow> string \<Rightarrow> py_exn + bool" where
  "py_startswith (PStr s) p = Inr (startswith s p)"
| "py_startswith v p = Inl (Exn OtherException ''no attribute startswith'' [])"

text \<open>
  \<^verbatim>\<open>s.split(c, 1)\<close> for a one-character separator: the text before the first
  occurrence and the text after it, or the string alone when the separator is absent.
\<close>

definition split1 :: "string \<Rightarrow> char \<Rightarrow> string list" where
  "split1 s c =
     (if c \<in> set s then [takeWhile (\<lambda>x. x \<noteq> c) s, drop 1 (dropWhile (\<lambda>x. x \<noteq> c) s)]
      else [s])"

fun py_split1 :: "pyval \<Rightarrow> char \<Rightarrow> py_exn + string list" where
  "py_split1 (PStr s) c = Inr (split1 s c)"
| "py_split1 v c = Inl (Exn OtherException ''no attribute split'' [])"

subsection \<open>The session marker\<close>

definition SESSION_ID_PREFIX :: string where
  "SESSION_ID_PREFIX = ''session-''"

definition DEFAULT_AGENT_KEY :: string where
  "DEFAULT_AGENT_KEY = ''triage''"

definition MARKER_PREFIX :: string where
  "MARKER_PREFIX = ''__SID__:''"

text \<open>
  The marker entry built at lines 112 and 114 of \<^verbatim>\<open>chat_fn\<close>:
  \<^verbatim>\<open>(f"__SID__:{session_id}", "")\<close>.
\<close>

definition encode :: "string \<Rightarrow> pyval" where
  "encode session_id = PTuple [PStr (MARKER_PREFIX @ session_id), PStr []]"

text \<open>
  The body of the \<^verbatim>\<open>try\<close> at lines 76 to 82. The result is the pair of the
  variables \<^verbatim>\<open>session_id\<close> (\<open>None\<close> while unassigned) and \<^verbatim>\<open>history\<close>
  when the block is left normally, or the exception that leaves it.
\<close>

definition decode_try :: "pyval \<Rightarrow> py_exn + (string option \<times> pyval)" where
  "decode_try history =
     bind_e (and_e (Inr (py_truthy history))
            (and_e (Inr (isinstance_list history))
                   (bind_e (py_len history) (\<lambda>n. Inr (0 < n)))))
       (\<lambda>c1. if \<not> c1 then Inr (None, history)
         else
           bind_e (py_getitem history 0) (\<lambda>first.
           bind_e (and_e (Inr (isinstance_list_or_tuple first))
                  (and_e (bind_e (py_len first) (\<lambda>n. Inr (1 \<le> n)))
                         (bind_e (py_getitem first 0) (\<lambda>x. Inr (isinstance_str x)))))
             (\<lambda>c2. if \<not> c2 then Inr (None, history)
               else
                 bind_e (py_getitem first 0) (\<lambda>f0.
                 bind_e (py_startswith f0 MARKER_PREFIX)
                   (\<lambda>c3. if \<not> c3 then Inr (None, history)
                     else
                       bind_e (py_split1 f0 CHR '':'') (\<lambda>pieces.
                       bind_e (list_getitem pieces 1) (\<lambda>sid.
                       bind_e (py_slice_from1 history) (\<lambda>rest.
                         Inr (Some sid, rest)))))))))"

text \<open>
  Lines 74 to 85: the \<^verbatim>\<open>except Exception\<close> handler resets \<^verbatim>\<open>session_id\<close> to
  \<^verbatim>\<open>None\<close>; the assignment to \<^verbatim>\<open>history\<close> is the last statement of the block, so
  the handler always sees the history as it came in.
\<close>

definition decode_history :: "pyval \<Rightarrow> string option \<times> pyval" where
  "decode_history history =
     (case decode_try history of Inl e \<Rightarrow> (None, history) | Inr r \<Rightarrow> r)"

text \<open>
  \<^verbatim>\<open>*history\<close> inside a list display (line 114) iterates the value; a value
  that is not iterable raises \<^verbatim>\<open>TypeError\<close>.
\<close>

fun py_iter :: "pyval \<Rightarrow> py_exn + pyval list" where
  "py_iter (PList xs) = Inr xs"
| "py_iter (PTuple xs) = Inr xs"
| "py_iter (PStr s) = Inr (map (\<lambda>c. PStr [c]) s)"
| "py_iter (PDict kvs) = Inr (map fst kvs)"
| "py_iter v = Inl (type_error ''object is not iterable'')"

subsection \<open>The runtime the code calls into\<close>

text \<open>
  An execution event as the source reads it: \<^verbatim>\<open>is_final_response()\<close>, an optional
  \<^verbatim>\<open>content\<close>, its optional list \<^verbatim>\<open>parts\<close>, and the optional text of a part.
\<close>

datatype Part = Part (part_text: "string option")

datatype Content = Content (parts: "Part list option")

datatype Event = Event (is_final_response: bool) (content: "Content option")

text \<open>
  What iterating \<^verbatim>\<open>runner.run_async(...)\<close> does, step by step: it yields an event,
  ends, or raises. The sequence of one turn is finite.
\<close>

datatype stream = Stop | Yield Event stream | Raises py_exn

text \<open>A runner, as far as dispatch uses it: session id and message to the event stream.\<close>

type_synonym runner = "string \<Rightarrow> string \<Rightarrow> stream"

text \<open>
  The faults of the four event-loop operations the source calls on a loop it creates
  itself (\<open>None\<close>: the operation works).
\<close>

record loop_env =
  new_event_loop :: "py_exn option"
  run_until_complete :: "py_exn option"
  shutdown_asyncgens :: "py_exn option"
  loop_close :: "py_exn option"

text \<open>
  Everything outside \<^verbatim>\<open>app.py\<close> that a turn depends on, one field per call site:
  \<^item> \<open>uuid4\<close>: the string of the UUID drawn at line 89;
  \<^item> \<open>reg_runner\<close>: \<^verbatim>\<open>make_runner_for(AGENTS[agent_choice])\<close> at line 93, giving the
    fault of \<^verbatim>\<open>create_session\<close> per session id; \<open>reg_loop\<close>: the loop of lines 94 to 102;
  \<^item> \<open>asyncio_run\<close>: \<^verbatim>\<open>asyncio.run\<close> failing before it runs the coroutine (line 47);
  \<^item> \<open>primary_runner\<close>, \<open>fallback_runner\<close>: \<^verbatim>\<open>make_runner_for(AGENTS[agent_key])\<close>
    at line 33, in the coroutine of line 47 and in that of line 52;
  \<^item> \<open>fallback_loop\<close>: the loop of lines 50 to 58.
\<close>

record world =
  uuid4 :: string
  reg_runner :: "string \<Rightarrow> py_exn + (string \<Rightarrow> py_exn option)"
  reg_loop :: loop_env
  asyncio_run :: "py_exn option"
  primary_runner :: "string \<Rightarrow> py_exn + runner"
  fallback_loop :: loop_env
  fallback_runner :: "string \<Rightarrow> py_exn + runner"

definition raise_if :: "py_exn option \<Rightarrow> py_exn + unit" where
  "raise_if f = (case f of None \<Rightarrow> Inr () | Some e \<Rightarrow> Inl e)"

text \<open>
  \<^verbatim>\<open>try: body finally: fin\<close>: the cleanup always runs; when it raises, its exception
  replaces the outcome of the body.
\<close>

definition try_finally :: "py_exn + 'a \<Rightarrow> py_exn + unit \<Rightarrow> py_exn + 'a" where
  "try_finally body fin = (case fin of Inl e \<Rightarrow> Inl e | Inr u \<Rightarrow> body)"

text \<open>
  The cleanup of lines 22 to 26, 54 to 58 and 98 to 102: a fault of
  \<^verbatim>\<open>shutdown_asyncgens\<close> is passed over, one of \<^verbatim>\<open>loop.close()\<close> is not.
\<close>

definition loop_cleanup :: "loop_env \<Rightarrow> py_exn + unit" where
  "loop_cleanup l =
     bind_e (case raise_if (shutdown_asyncgens l) of Inl e \<Rightarrow> Inr () | Inr u \<Rightarrow> Inr ())
       (\<lambda>u. raise_if (loop_close l))"

subsection \<open>Agent dispatch: lines 32 to 42\<close>

text \<open>
  The value an event assigns to \<^verbatim>\<open>final_response\<close> (line 39), if the test of line 38
  passes: the event is final, its content is not \<^verbatim>\<open>None\<close>, and its parts are a
  non-empty list.
\<close>

definition text_val :: "Part \<Rightarrow> pyval" where
  "text_val p = (case part_text p of None \<Rightarrow> PNone | Some s \<Rightarrow> PStr s)"

definition event_reply :: "Event \<Rightarrow> pyval option" where
  "event_reply event =
     (if is_final_response event then
        (case content event of
           None \<Rightarrow> None
         | Some c \<Rightarrow>
             (case parts c of
                None \<Rightarrow> None
              | Some [] \<Rightarrow> None
              | Some (p # ps) \<Rightarrow> Some (text_val p)))
      else None)"

fun scan_events :: "pyval \<Rightarrow> stream \<Rightarrow> py_exn + pyval" where
  "scan_events final_response Stop = Inr final_response"
| "scan_events final_response (Raises exc) = Inl exc"
| "scan_events final_response (Yield event s) =
     scan_events (case event_reply event of None \<Rightarrow> final_response | Some t \<Rightarrow> t) s"

definition agent_runtime_error :: "py_exn \<Rightarrow> string" where
  "agent_runtime_error exc = ''[Agent runtime error] '' @ exn_str exc @ [CHR 0x0A] @ exn_tb exc"

definition send_and_get_final_response_async ::
  "(string \<Rightarrow> py_exn + runner) \<Rightarrow> string \<Rightarrow> string \<Rightarrow> string \<Rightarrow> py_exn + pyval" where
  "send_and_get_final_response_async make_runner message agent_key session_id =
     bind_e (make_runner agent_key) (\<lambda>run_async.
       Inr (case scan_events (PStr ''(no response)'') (run_async session_id message) of
              Inl exc \<Rightarrow> PStr (agent_runtime_error exc)
            | Inr final_response \<Rightarrow> final_response))"

subsection \<open>The bridge: lines 45 to 60\<close>

definition error_invoking_agent :: "py_exn \<Rightarrow> string" where
  "error_invoking_agent exc = ''[Error invoking agent] '' @ exn_str exc @ [CHR 0x0A] @ exn_tb exc"

text \<open>The handler of \<^verbatim>\<open>except RuntimeError\<close>, lines 50 to 58.\<close>

definition run_agent_fallback :: "world \<Rightarrow> string \<Rightarrow> string \<Rightarrow> string \<Rightarrow> py_exn + pyval" where
  "run_agent_fallback w message agent_key session_id =
     bind_e (raise_if (new_event_loop (fallback_loop w))) (\<lambda>loop.
       try_finally
         (bind_e (raise_if (run_until_complete (fallback_loop w))) (\<lambda>u.
            send_and_get_final_response_async (fallback_runner w) message agent_key session_id))
         (loop_cleanup (fallback_loop w)))"

text \<open>
  An exception raised inside an \<^verbatim>\<open>except\<close> handler is not offered to the other
  handlers of the same \<^verbatim>\<open>try\<close>: what the fallback raises leaves the function.
\<close>

definition run_agent_sync :: "world \<Rightarrow> string \<Rightarrow> string \<Rightarrow> string \<Rightarrow> py_exn + pyval" where
  "run_agent_sync w message agent_key session_id =
     (case bind_e (raise_if (asyncio_run w)) (\<lambda>u.
             send_and_get_final_response_async (primary_runner w) message agent_key session_id) of
        Inr r \<Rightarrow> Inr r
      | Inl exc \<Rightarrow>
          if exn_class exc = RuntimeError then run_agent_fallback w message agent_key session_id
          else Inr (PStr (error_invoking_agent exc)))"

subsection \<open>The chat callback: lines 63 to 127\<close>

text \<open>The body of the \<^verbatim>\<open>try\<close> at lines 93 to 102.\<close>

definition register_session_try :: "world \<Rightarrow> string \<Rightarrow> string \<Rightarrow> py_exn + unit" where
  "register_session_try w agent_choice session_id =
     bind_e (reg_runner w agent_choice) (\<lambda>create_session.
     bind_e (raise_if (new_event_loop (reg_loop w))) (\<lambda>loop.
       try_finally
         (bind_e (raise_if (run_until_complete (reg_loop w))) (\<lambda>u.
            raise_if (create_session session_id)))
         (loop_cleanup (reg_loop w))))"

text \<open>Lines 92 to 105: \<^verbatim>\<open>except Exception: pass\<close>.\<close>

definition register_session :: "world \<Rightarrow> string \<Rightarrow> string \<Rightarrow> py_exn + unit" where
  "register_session w agent_choice session_id =
     (case register_session_try w agent_choice session_id of Inl e \<Rightarrow> Inr () | Inr u \<Rightarrow> Inr ())"

text \<open>
  The variables of \<^verbatim>\<open>chat_fn\<close> when line 119 is reached. \<open>res_registration\<close> holds
  the agent key and session id of the registration block when the turn entered it.
\<close>

record resolved =
  res_session_id :: string
  res_history :: pyval
  res_history_to_return :: pyval
  res_registration :: "(string \<times> string) option"

text \<open>Lines 87 to 114, the branch of \<^verbatim>\<open>if not session_id\<close>.\<close>

definition new_session :: "world \<Rightarrow> pyval \<Rightarrow> string \<Rightarrow> py_exn + resolved" where
  "new_session w history agent_choice =
     (let session_id = SESSION_ID_PREFIX @ uuid4 w in
      bind_e (register_session w agent_choice session_id) (\<lambda>u.
      bind_e (if history = PNone then Inr (PList [encode session_id])
              else bind_e (py_iter history) (\<lambda>xs. Inr (PList (encode session_id # xs))))
        (\<lambda>history_to_return.
          Inr \<lparr>res_session_id = session_id, res_history = history,
               res_history_to_return = history_to_return,
               res_registration = Some (agent_choice, session_id)\<rparr>)))"

text \<open>
  Lines 74 to 117. \<^verbatim>\<open>not session_id\<close> holds for \<^verbatim>\<open>None\<close> and for the empty
  string.
\<close>

definition resolve_session :: "world \<Rightarrow> pyval \<Rightarrow> string \<Rightarrow> py_exn + resolved" where
  "resolve_session w history0 agent_choice =
     (case decode_history history0 of
        (None, history) \<Rightarrow> new_session w history agent_choice
      | (Some session_id, history) \<Rightarrow>
          if session_id = [] then new_session w history agent_choice
          else Inr \<lparr>res_session_id = session_id, res_history = history,
                    res_history_to_return = history, res_registration = None\<rparr>)"

text \<open>Lines 119 to 127: the response of the bridge is the only value returned.\<close>

definition chat_fn :: "world \<Rightarrow> string \<Rightarrow> pyval \<Rightarrow> string \<Rightarrow> py_exn + pyval" where
  "chat_fn w message history agent_choice =
     bind_e (resolve_session w history agent_choice) (\<lambda>r.
       run_agent_sync w message agent_choice (res_session_id r))"

subsection \<open>Shapes of a history entry\<close>

text \<open>
  The marker shape as the specification words it: a pair whose first field is the fixed
  prefix followed by a session id, and whose second field is empty. The transport may
  hand the pair back as a tuple or as a two-element list.
\<close>

fun marker_shape :: "pyval \<Rightarrow> bool" where
  "marker_shape (PTuple [PStr a, PStr b]) =
     (startswith a MARKER_PREFIX \<and> drop (length MARKER_PREFIX) a \<noteq> [] \<and> b = [])"
| "marker_shape (PList [PStr a, PStr b]) =
     (startswith a MARKER_PREFIX \<and> drop (length MARKER_PREFIX) a \<noteq> [] \<and> b = [])"
| "marker_shape v = False"

definition valid_marker :: "string \<Rightarrow> pyval \<Rightarrow> bool" where
  "valid_marker sid m =
     (sid \<noteq> [] \<and>
      (m = PTuple [PStr (MARKER_PREFIX @ sid), PStr []] \<or>
       m = PList [PStr (MARKER_PREFIX @ sid), PStr []]))"

text \<open>
  The shape lines 78 and 79 accept: a list or tuple with at least one element, the first
  a string that starts with the prefix. \<open>marker_id\<close> gives the text after the prefix.
\<close>

fun marker_id :: "pyval \<Rightarrow> string option" where
  "marker_id (PList (PStr s # r)) =
     (if startswith s MARKER_PREFIX then Some (drop (length MARKER_PREFIX) s) else None)"
| "marker_id (PTuple (PStr s # r)) =
     (if startswith s MARKER_PREFIX then Some (drop (length MARKER_PREFIX) s) else None)"
| "marker_id v = None"

definition carries_marker :: "pyval \<Rightarrow> bool" where
  "carries_marker history =
     (case history of
        PList (e # es) \<Rightarrow> (case marker_id e of None \<Rightarrow> False | Some sid \<Rightarrow> True)
      | _ \<Rightarrow> False)"

subsection \<open>Example worlds\<close>

definition quiet_loop :: loop_env where
  "quiet_loop = \<lparr>new_event_loop = None, run_until_complete = None,
                  shutdown_asyncgens = None, loop_close = None\<rparr>"

definition hi_event :: Event where
  "hi_event = Event True (Some (Content (Some [Part (Some ''Hi'')])))"

definition partial_event :: Event where
  "partial_event = Event False (Some (Content (Some [Part (Some ''H'')])))"

definition hi_runner :: runner where
  "hi_runner session_id message = Yield partial_event (Yield hi_event Stop)"

definition agents_ok :: "string \<Rightarrow> py_exn + runner" where
  "agents_ok agent_key =
     (if agent_key = DEFAULT_AGENT_KEY then Inr hi_runner
      else Inl (Exn KeyError agent_key []))"

text \<open>A world where every call works.\<close>

definition world_ok :: world where
  "world_ok =
     \<lparr>uuid4 = ''123e4567-e89b-42d3-a456-426614174000'',
      reg_runner = (\<lambda>agent_key. Inr (\<lambda>session_id. None)),
      reg_loop = quiet_loop,
      asyncio_run = None,
      primary_runner = agents_ok,
      fallback_loop = quiet_loop,
      fallback_runner = agents_ok\<rparr>"

text \<open>The session store refuses every registration.\<close>

definition world_reg_fails :: world where
  "world_reg_fails =
     world_ok\<lparr>reg_runner :=
       (\<lambda>agent_key. Inr (\<lambda>session_id. Some (Exn OtherException ''session already exists'' [])))\<rparr>"

text \<open>
  The callback is invoked on a thread whose event loop is running: \<^verbatim>\<open>asyncio.run\<close>
  refuses, and so does \<^verbatim>\<open>run_until_complete\<close> on any second loop.
\<close>

definition loop_running :: py_exn where
  "loop_running = Exn RuntimeError ''Cannot run the event loop while another loop is running'' []"

definition world_loop_running :: world where
  "world_loop_running =
     world_ok\<lparr>asyncio_run :=
         Some (Exn RuntimeError ''asyncio.run() cannot be called from a running event loop'' []),
       fallback_loop :=
         \<lparr>new_event_loop = None, run_until_complete = Some loop_running,
          shutdown_asyncgens = Some loop_running, loop_close = None\<rparr>\<rparr>"

text \<open>
  The same thread, with the loop of the registration block refused as well: on a thread
  whose event loop is running no second loop can be run, at line 96 as at line 52.
\<close>

definition world_loop_running_throughout :: world where
  "world_loop_running_throughout =
     world_loop_running\<lparr>reg_loop :=
       \<lparr>new_event_loop = None, run_until_complete = Some loop_running,
        shutdown_asyncgens = Some loop_running, loop_close = None\<rparr>\<rparr>"

text \<open>The agent yields its final reply and then fails.\<close>

definition boom :: py_exn where
  "boom = Exn OtherException ''boom'' ''Traceback''"

definition world_late_fault :: world where
  "world_late_fault =
     world_ok\<lparr>primary_runner := (\<lambda>agent_key. Inr (\<lambda>session_id message. Yield hi_event (Raises boom)))\<rparr>"

text \<open>
  The reply read off the stream, without the loop: the events it yields, the exception
  that ends it if one does, the replies of the qualifying events in order, and from
  these the diagnostic, the last qualifying reply, or the placeholder.
\<close>

fun stream_events :: "stream \<Rightarrow> Event list" where
  "stream_events Stop = []"
| "stream_events (Raises exc) = []"
| "stream_events (Yield event s) = event # stream_events s"

fun stream_fault :: "stream \<Rightarrow> py_exn option" where
  "stream_fault Stop = None"
| "stream_fault (Raises exc) = Some exc"
| "stream_fault (Yield event s) = stream_fault s"

fun qualifying_replies :: "Event list \<Rightarrow> pyval list" where
  "qualifying_replies [] = []"
| "qualifying_replies (event # events) =
     (case event_reply event of
        None \<Rightarrow> qualifying_replies events
      | Some t \<Rightarrow> t # qualifying_replies events)"

definition expected_reply :: "stream \<Rightarrow> pyval" where
  "expected_reply s =
     (case stream_fault s of
        Some exc \<Rightarrow> PStr (agent_runtime_error exc)
      | None \<Rightarrow>
          (case qualifying_replies (stream_events s) of
             [] \<Rightarrow> PStr ''(no response)''
           | t # ts \<Rightarrow> last (t # ts)))"

text \<open>
  The test of line 87 on the decoded history: \<^verbatim>\<open>not session_id\<close> holds, so the turn
  takes the new-session branch.
\<close>

definition session_absent :: "pyval \<Rightarrow> bool" where
  "session_absent history0 =
     (case fst (decode_history history0) of None \<Rightarrow> True | Some sid \<Rightarrow> sid = [])"

subsection \<open>Facts about strings\<close>

lemma startswith_append [simp]: "startswith (p @ s) p"
  by (simp add: startswith_def)

lemma split1_marker: "split1 (MARKER_PREFIX @ s) CHR '':'' = [''__SID__'', s]"
  by (simp add: split1_def MARKER_PREFIX_def)

lemma startswith_split:
  assumes "startswith s MARKER_PREFIX"
  shows "split1 s CHR '':'' = [''__SID__'', drop (length MARKER_PREFIX) s]"
proof -
  from assms have "s = MARKER_PREFIX @ drop (length MARKER_PREFIX) s"
    by (metis append_take_drop_id startswith_def)
  then show ?thesis
    using split1_marker by metis
qed

subsection \<open>Decoding\<close>

lemma decode_try_non_list: "\<not> isinstance_list h \<Longrightarrow> decode_try h = Inr (None, h)"
  by (cases h) (simp_all add: decode_try_def bind_e_def and_e_def)

lemma decode_try_nil: "decode_try (PList []) = Inr (None, PList [])"
  by (simp add: decode_try_def bind_e_def and_e_def)

lemma decode_try_entry:
  "decode_try (PList (e # es)) =
     Inr (case marker_id e of
            None \<Rightarrow> (None, PList (e # es))
          | Some sid \<Rightarrow> (Some sid, PList es))"
proof (cases e)
  case (PList xs)
  show ?thesis
  proof (cases xs)
    case Nil
    with PList show ?thesis
      by (simp add: decode_try_def bind_e_def and_e_def list_getitem_def)
  next
    case (Cons x r)
    with PList show ?thesis
      by (cases x)
        (simp_all add: decode_try_def bind_e_def and_e_def list_getitem_def startswith_split)
  qed
next
  case (PTuple xs)
  show ?thesis
  proof (cases xs)
    case Nil
    with PTuple show ?thesis
      by (simp add: decode_try_def bind_e_def and_e_def list_getitem_def)
  next
    case (Cons x r)
    with PTuple show ?thesis
      by (cases x)
        (simp_all add: decode_try_def bind_e_def and_e_def list_getitem_def startswith_split)
  qed
qed (simp_all add: decode_try_def bind_e_def and_e_def list_getitem_def)

text \<open>The block of lines 76 to 82 is never left by an exception.\<close>

lemma decode_try_returns: "\<exists>r. decode_try h = Inr r"
proof (cases h)
  case (PList xs)
  then show ?thesis
    by (cases xs) (simp_all add: decode_try_nil decode_try_entry)
qed (simp_all add: decode_try_non_list)

lemma decode_history_entry:
  "decode_history (PList (e # es)) =
     (case marker_id e of
        None \<Rightarrow> (None, PList (e # es))
      | Some sid \<Rightarrow> (Some sid, PList es))"
  by (simp add: decode_history_def decode_try_entry)

lemma decode_history_nil: "decode_history (PList []) = (None, PList [])"
  by (simp add: decode_history_def decode_try_nil)

lemma decode_history_non_list: "\<not> isinstance_list h \<Longrightarrow> decode_history h = (None, h)"
  by (simp add: decode_history_def decode_try_non_list)

lemma marker_id_prefix [simp]:
  "marker_id (PTuple (PStr (MARKER_PREFIX @ x) # r)) = Some x"
  "marker_id (PList (PStr (MARKER_PREFIX @ x) # r)) = Some x"
  by (simp_all add: startswith_append)

lemma marker_id_encode [simp]: "marker_id (encode sid) = Some sid"
  by (simp add: encode_def startswith_append)

subsection \<open>Resolving the session\<close>

lemma prefix_nonempty [simp]: "SESSION_ID_PREFIX \<noteq> []"
  by (simp add: SESSION_ID_PREFIX_def)

lemma register_session_returns: "register_session w a sid = Inr ()"
  by (simp add: register_session_def split: sum.splits)

lemma new_session_none:
  "new_session w PNone a =
     Inr \<lparr>res_session_id = SESSION_ID_PREFIX @ uuid4 w, res_history = PNone,
          res_history_to_return = PList [encode (SESSION_ID_PREFIX @ uuid4 w)],
          res_registration = Some (a, SESSION_ID_PREFIX @ uuid4 w)\<rparr>"
  by (simp add: new_session_def Let_def register_session_returns bind_e_def)

lemma new_session_list:
  "new_session w (PList xs) a =
     Inr \<lparr>res_session_id = SESSION_ID_PREFIX @ uuid4 w, res_history = PList xs,
          res_history_to_return = PList (encode (SESSION_ID_PREFIX @ uuid4 w) # xs),
          res_registration = Some (a, SESSION_ID_PREFIX @ uuid4 w)\<rparr>"
  by (simp add: new_session_def Let_def register_session_returns bind_e_def)

lemma resolve_none: "resolve_session w PNone a = new_session w PNone a"
  by (simp add: resolve_session_def decode_history_non_list)

lemma resolve_nil: "resolve_session w (PList []) a = new_session w (PList []) a"
  by (simp add: resolve_session_def decode_history_nil)

lemma resolve_entry:
  "resolve_session w (PList (e # es)) a =
     (case marker_id e of
        None \<Rightarrow> new_session w (PList (e # es)) a
      | Some sid \<Rightarrow>
          if sid = [] then new_session w (PList es) a
          else Inr \<lparr>res_session_id = sid, res_history = PList es,
                    res_history_to_return = PList es, res_registration = None\<rparr>)"
  by (simp add: resolve_session_def decode_history_entry split: option.splits)

lemma resolve_reuse:
  "marker_id m = Some sid \<Longrightarrow> sid \<noteq> [] \<Longrightarrow>
   resolve_session w (PList (m # H)) a =
     Inr \<lparr>res_session_id = sid, res_history = PList H,
          res_history_to_return = PList H, res_registration = None\<rparr>"
  by (simp add: resolve_entry)

lemma resolve_list_or_none:
  "h = PNone \<or> isinstance_list h \<Longrightarrow>
     \<exists>r. resolve_session w h a = Inr r \<and> res_session_id r \<noteq> [] \<and>
         (fst (decode_history h) = Some (res_session_id r) \<or>
          res_session_id r = SESSION_ID_PREFIX @ uuid4 w)"
proof (cases h)
  case PNone
  then show ?thesis
    by (simp add: resolve_none new_session_none)
next
  case (PList xs)
  show ?thesis
  proof (cases xs)
    case Nil
    with PList show ?thesis
      by (simp add: resolve_nil new_session_list)
  next
    case (Cons e es)
    with PList show ?thesis
      by (cases "marker_id e")
        (simp_all add: resolve_entry new_session_list decode_history_entry)
  qed
qed simp_all

subsection \<open>Scanning the events\<close>

lemma scan_events_spec:
  "scan_events fr s =
     (case stream_fault s of
        Some exc \<Rightarrow> Inl exc
      | None \<Rightarrow>
          Inr (case qualifying_replies (stream_events s) of
                 [] \<Rightarrow> fr
               | t # ts \<Rightarrow> last (t # ts)))"
proof (induction s arbitrary: fr)
  case Stop
  show ?case by simp
next
  case (Raises exc)
  show ?case by simp
next
  case (Yield ev s)
  show ?case
    by (simp add: Yield.IH split: option.splits list.splits)
qed

lemma send_and_get_reply:
  "make_runner agent_key = Inr run_async \<Longrightarrow>
   send_and_get_final_response_async make_runner message agent_key session_id =
     Inr (expected_reply (run_async session_id message))"
  by (simp add: send_and_get_final_response_async_def bind_e_def scan_events_spec
      expected_reply_def split: option.splits)

lemma event_reply_str_or_none: "event_reply ev = Some t \<Longrightarrow> t = PNone \<or> (\<exists>x. t = PStr x)"
  by (auto simp add: event_reply_def text_val_def split: if_splits option.splits list.splits)

lemma qualifying_replies_str_or_none:
  "t \<in> set (qualifying_replies evs) \<Longrightarrow> t = PNone \<or> (\<exists>x. t = PStr x)"
  by (induction evs) (auto dest: event_reply_str_or_none split: option.splits)

lemma expected_reply_str_or_none: "expected_reply s = PNone \<or> (\<exists>x. expected_reply s = PStr x)"
proof (cases "stream_fault s")
  case (Some exc)
  then show ?thesis by (simp add: expected_reply_def)
next
  case None
  show ?thesis
  proof (cases "qualifying_replies (stream_events s)")
    case Nil
    with None show ?thesis by (simp add: expected_reply_def)
  next
    case (Cons t ts)
    then have "last (t # ts) \<in> set (qualifying_replies (stream_events s))"
      by (metis last_in_set list.distinct(1))
    then have "last (t # ts) = PNone \<or> (\<exists>x. last (t # ts) = PStr x)"
      by (rule qualifying_replies_str_or_none)
    with None Cons show ?thesis by (simp add: expected_reply_def)
  qed
qed

subsection \<open>What the bridge returns\<close>

lemma send_and_get_str_or_none:
  assumes "send_and_get_final_response_async mk message k sid = Inr v"
  shows "v = PNone \<or> (\<exists>x. v = PStr x)"
proof (cases "mk k")
  case (Inl e)
  with assms show ?thesis
    by (simp add: send_and_get_final_response_async_def bind_e_def)
next
  case (Inr run)
  with assms have "v = expected_reply (run sid message)"
    by (simp add: send_and_get_reply)
  then show ?thesis
    using expected_reply_str_or_none by simp
qed

lemma run_agent_fallback_str_or_none:
  "run_agent_fallback w message k sid = Inr v \<Longrightarrow> v = PNone \<or> (\<exists>x. v = PStr x)"
  by (auto simp add: run_agent_fallback_def bind_e_def try_finally_def
      split: sum.splits dest: send_and_get_str_or_none)

lemma run_agent_sync_str_or_none:
  "run_agent_sync w message k sid = Inr v \<Longrightarrow> v = PNone \<or> (\<exists>x. v = PStr x)"
  by (auto simp add: run_agent_sync_def bind_e_def
      split: sum.splits if_splits dest: send_and_get_str_or_none run_agent_fallback_str_or_none)

lemma chat_fn_str_or_none:
  "chat_fn w message h a = Inr v \<Longrightarrow> v = PNone \<or> (\<exists>x. v = PStr x)"
  by (auto simp add: chat_fn_def bind_e_def split: sum.splits dest: run_agent_sync_str_or_none)

text \<open>
  When \<^verbatim>\<open>asyncio.run\<close> gets to run the coroutine and the runner is obtained, the
  bridge returns what the scan of the stream gives.
\<close>

lemma run_agent_sync_primary:
  "asyncio_run w = None \<Longrightarrow> primary_runner w k = Inr run \<Longrightarrow>
   run_agent_sync w message k sid = Inr (expected_reply (run sid message))"
  by (simp add: run_agent_sync_def raise_if_def bind_e_def send_and_get_reply)

lemma after_first_colon:
  "drop 1 (dropWhile (\<lambda>c. c \<noteq> CHR '':'') (MARKER_PREFIX @ x)) = x"
  by (simp add: MARKER_PREFIX_def)

lemma valid_marker_id: "valid_marker sid m \<Longrightarrow> marker_id m = Some sid \<and> sid \<noteq> []"
  by (auto simp add: valid_marker_def)

text \<open>
  Line 39 assigns the text of the part as it is: a final event whose first part carries
  no text makes the reply \<^verbatim>\<open>None\<close>.
\<close>

lemma reply_without_text:
  "send_and_get_final_response_async
       (\<lambda>agent_key. Inr (\<lambda>session_id message.
          Yield (Event True (Some (Content (Some [Part None])))) Stop))
       ''Hello'' ''triage'' ''session-1'' = Inr PNone"
  by (simp add: send_and_get_final_response_async_def bind_e_def event_reply_def text_val_def)

subsection \<open>Registration\<close>

text \<open>
  On the new-session branch a failed registration does not leave its block: the minted
  id is kept and the callback returns what dispatching under that id returns.
\<close>

lemma registration_swallowed:
  assumes "register_session_try w a (SESSION_ID_PREFIX @ uuid4 w) = Inl e"
    and "h = PNone \<or> isinstance_list h"
    and "session_absent h"
  shows "register_session w a (SESSION_ID_PREFIX @ uuid4 w) = Inr () \<and>
     (\<exists>r. resolve_session w h a = Inr r \<and>
          res_session_id r = SESSION_ID_PREFIX @ uuid4 w \<and>
          res_registration r = Some (a, SESSION_ID_PREFIX @ uuid4 w)) \<and>
     chat_fn w message h a = run_agent_sync w message a (SESSION_ID_PREFIX @ uuid4 w)"
proof -
  have res: "\<exists>r. resolve_session w h a = Inr r \<and>
          res_session_id r = SESSION_ID_PREFIX @ uuid4 w \<and>
          res_registration r = Some (a, SESSION_ID_PREFIX @ uuid4 w)"
  proof (cases h)
    case PNone
    then show ?thesis
      by (simp add: resolve_none new_session_none)
  next
    case (PList xs)
    show ?thesis
    proof (cases xs)
      case Nil
      with PList show ?thesis
        by (simp add: resolve_nil new_session_list)
    next
      case (Cons x ys)
      with PList assms(3) show ?thesis
        by (cases "marker_id x")
          (simp_all add: session_absent_def decode_history_entry resolve_entry new_session_list)
    qed
  qed (use assms(2) in simp_all)
  then have "chat_fn w message h a =
      run_agent_sync w message a (SESSION_ID_PREFIX @ uuid4 w)"
    by (auto simp add: chat_fn_def bind_e_def)
  with res show ?thesis
    by (simp add: register_session_returns)
qed

text \<open>When the session store alone refuses, the turn replies.\<close>

lemma registration_refused_turn_replies:
  "register_session_try world_reg_fails ''triage''
       (SESSION_ID_PREFIX @ uuid4 world_reg_fails) =
     Inl (Exn OtherException ''session already exists'' []) \<and>
   chat_fn world_reg_fails ''Hello'' PNone ''triage'' = Inr (PStr ''Hi'')"
  by (simp add: register_session_try_def try_finally_def loop_cleanup_def raise_if_def
      chat_fn_def resolve_none new_session_none bind_e_def run_agent_sync_primary
      world_reg_fails_def world_ok_def quiet_loop_def agents_ok_def DEFAULT_AGENT_KEY_def
      hi_runner_def expected_reply_def hi_event_def partial_event_def event_reply_def
      text_val_def)

section \<open>The claims\<close>

text \<open>
  C1, marker round-trip. For every non-empty session id \<open>sid\<close> and every history
  \<open>H\<close>, decoding the history that starts with the marker \<open>encode sid\<close> and continues
  with \<open>H\<close> gives exactly \<open>sid\<close>, and \<open>H\<close> unchanged.
\<close>

theorem marker_round_trip:
  "sid \<noteq> [] \<Longrightarrow> decode_history (PList (encode sid # H)) = (Some sid, PList H)"
  by (simp add: decode_history_entry)

theorem marker_round_trip_witness:
  "''session-abc123'' \<noteq> [] \<and>
   decode_history (PList [encode ''session-abc123'', PTuple [PStr ''Hello'', PStr ''Hi'']]) =
     (Some ''session-abc123'', PList [PTuple [PStr ''Hello'', PStr ''Hi'']])"
  using marker_round_trip [of "''session-abc123''" "[PTuple [PStr ''Hello'', PStr ''Hi'']]"]
  by simp

text \<open>
  C2, reply postcondition. As stated the claim fails: when the stream yields a final
  event with text and then raises, the reply is the diagnostic string, not the text of
  the last qualifying event.
\<close>

theorem reply_postcondition_counterexample:
  "event_reply hi_event = Some (PStr ''Hi'') \<and>
   send_and_get_final_response_async (primary_runner world_late_fault)
       ''Hello'' ''triage'' ''session-1'' =
     Inr (PStr (''[Agent runtime error] boom'' @ [CHR 0x0A] @ ''Traceback'')) \<and>
   send_and_get_final_response_async (primary_runner world_late_fault)
       ''Hello'' ''triage'' ''session-1'' \<noteq> Inr (PStr ''Hi'')"
  by (simp add: send_and_get_final_response_async_def bind_e_def hi_event_def boom_def
      event_reply_def text_val_def agent_runtime_error_def world_late_fault_def)

text \<open>
  C2 as amended. Once the runner is obtained, dispatch returns: the diagnostic string
  \<^verbatim>\<open>[Agent runtime error] ...\<close> when iterating the events raises, even after a
  qualifying event; otherwise the text of the first part of the last event that is final
  and has a non-empty list of parts; otherwise the placeholder \<^verbatim>\<open>(no response)\<close>. The
  reply is a string provided the first part of every qualifying event carries text.
\<close>

theorem reply_postcondition:
  assumes "make_runner agent_key = Inr run_async"
  shows "send_and_get_final_response_async make_runner message agent_key session_id =
       Inr (expected_reply (run_async session_id message)) \<and>
     (PNone \<notin> set (qualifying_replies (stream_events (run_async session_id message))) \<longrightarrow>
      (\<exists>t. expected_reply (run_async session_id message) = PStr t))"
proof -
  let ?s = "run_async session_id message"
  have "\<exists>t. expected_reply ?s = PStr t" if "PNone \<notin> set (qualifying_replies (stream_events ?s))"
  proof (cases "stream_fault ?s")
    case (Some exc)
    then show ?thesis by (simp add: expected_reply_def)
  next
    case None
    show ?thesis
    proof (cases "qualifying_replies (stream_events ?s)")
      case Nil
      with None show ?thesis by (simp add: expected_reply_def)
    next
      case (Cons t ts)
      then have mem: "last (t # ts) \<in> set (qualifying_replies (stream_events ?s))"
        by (metis last_in_set list.distinct(1))
      with that have "last (t # ts) \<noteq> PNone"
        by auto
      moreover from mem have "last (t # ts) = PNone \<or> (\<exists>x. last (t # ts) = PStr x)"
        by (rule qualifying_replies_str_or_none)
      ultimately have "\<exists>x. last (t # ts) = PStr x"
        by blast
      with None Cons show ?thesis by (simp add: expected_reply_def)
    qed
  qed
  with assms show ?thesis
    by (simp add: send_and_get_reply)
qed

text \<open>
  The witness: a partial event and then the final one; no event at all; only a
  non-final event.
\<close>

theorem reply_postcondition_witness:
  "agents_ok ''triage'' = Inr hi_runner \<and>
   send_and_get_final_response_async agents_ok ''Hello'' ''triage'' ''session-1'' =
     Inr (PStr ''Hi'') \<and>
   send_and_get_final_response_async (\<lambda>agent_key. Inr (\<lambda>session_id message. Stop))
       ''Hello'' ''triage'' ''session-1'' = Inr (PStr ''(no response)'') \<and>
   send_and_get_final_response_async
       (\<lambda>agent_key. Inr (\<lambda>session_id message. Yield partial_event Stop))
       ''Hello'' ''triage'' ''session-1'' = Inr (PStr ''(no response)'')"
  using reply_postcondition [of agents_ok "''triage''" hi_runner "''Hello''" "''session-1''"]
    reply_postcondition [of "\<lambda>agent_key. Inr (\<lambda>session_id message. Stop)" "''triage''"
      "\<lambda>session_id message. Stop" "''Hello''" "''session-1''"]
    reply_postcondition [of "\<lambda>agent_key. Inr (\<lambda>session_id message. Yield partial_event Stop)"
      "''triage''" "\<lambda>session_id message. Yield partial_event Stop" "''Hello''" "''session-1''"]
  by (simp add: agents_ok_def DEFAULT_AGENT_KEY_def hi_runner_def expected_reply_def
      hi_event_def partial_event_def event_reply_def text_val_def)

text \<open>
  C3, what a turn returns. As stated the claim fails: the callback returns the reply
  alone. On the first turn in \<open>world_ok\<close> the history to persist is computed (one marker
  entry), but the value returned is the string, not the pair.
\<close>

theorem turn_output_counterexample:
  "chat_fn world_ok ''Hello'' PNone ''triage'' = Inr (PStr ''Hi'') \<and>
   chat_fn world_ok ''Hello'' PNone ''triage'' \<noteq>
     Inr (PTuple [PStr ''Hi'',
                  PList [encode ''session-123e4567-e89b-42d3-a456-426614174000'']])"
  by (simp add: chat_fn_def resolve_none new_session_none bind_e_def run_agent_sync_primary
      world_ok_def agents_ok_def DEFAULT_AGENT_KEY_def hi_runner_def expected_reply_def
      hi_event_def partial_event_def event_reply_def text_val_def)

text \<open>
  C3 as amended. A turn returns the reply of the bridge alone, never a pair; the history
  to persist is computed and not returned. On a first turn (history \<^verbatim>\<open>None\<close>) it
  consists of exactly one marker entry, which encodes the session id minted for the
  turn, and the message is dispatched under that id.
\<close>

theorem turn_output:
  "chat_fn w message h a \<noteq> Inr (PTuple xs) \<and>
   resolve_session w PNone a =
     Inr \<lparr>res_session_id = SESSION_ID_PREFIX @ uuid4 w, res_history = PNone,
          res_history_to_return = PList [encode (SESSION_ID_PREFIX @ uuid4 w)],
          res_registration = Some (a, SESSION_ID_PREFIX @ uuid4 w)\<rparr> \<and>
   chat_fn w message PNone a = run_agent_sync w message a (SESSION_ID_PREFIX @ uuid4 w)"
proof -
  have "chat_fn w message h a \<noteq> Inr (PTuple xs)"
    using chat_fn_str_or_none [of w message h a "PTuple xs"] by auto
  then show ?thesis
    by (simp add: chat_fn_def resolve_none new_session_none bind_e_def)
qed

text \<open>
  C4, fault containment in the bridge. The callback runs on a thread whose event loop
  is running: \<^verbatim>\<open>asyncio.run\<close> raises \<^verbatim>\<open>RuntimeError\<close>, the handler of line 48 takes
  over, \<^verbatim>\<open>run_until_complete\<close> on the second loop raises \<^verbatim>\<open>RuntimeError\<close> again, and
  that exception leaves \<^verbatim>\<open>run_agent_sync\<close> and \<^verbatim>\<open>chat_fn\<close>: the handler of line 59
  does not cover what the handler of line 48 raises.
\<close>

theorem bridge_fallback_raises:
  "run_agent_sync world_loop_running ''Hello'' ''triage'' ''session-1'' = Inl loop_running \<and>
   chat_fn world_loop_running ''Hello'' PNone ''triage'' = Inl loop_running"
  by (simp add: chat_fn_def resolve_none new_session_none bind_e_def run_agent_sync_def
      run_agent_fallback_def try_finally_def loop_cleanup_def raise_if_def
      world_loop_running_def world_ok_def loop_running_def)

text \<open>
  C5, no-crash resolve. For a history that is \<^verbatim>\<open>None\<close> or a list of entries of any
  shape (non-string entries, entries of any arity, a marker with an empty id, no entry
  at all), the decoding block is not left by an exception, session resolution returns,
  and the session id it returns is not empty: it is the id decoded from the marker, or
  else a freshly minted one.
\<close>

theorem resolve_never_raises:
  "h = PNone \<or> isinstance_list h \<Longrightarrow>
     (\<exists>d. decode_try h = Inr d) \<and>
     (\<exists>r. resolve_session w h a = Inr r \<and> res_session_id r \<noteq> [] \<and>
         (fst (decode_history h) = Some (res_session_id r) \<or>
          res_session_id r = SESSION_ID_PREFIX @ uuid4 w))"
  using decode_try_returns [of h] resolve_list_or_none [of h w a] by blast

text \<open>The witness: a history whose only entry is a marker with an empty id.\<close>

theorem resolve_never_raises_witness:
  "(PList [PTuple [PStr ''__SID__:'', PStr []]] = PNone \<or>
      isinstance_list (PList [PTuple [PStr ''__SID__:'', PStr []]])) \<and>
   (\<exists>r. resolve_session world_ok (PList [PTuple [PStr ''__SID__:'', PStr []]]) ''triage'' = Inr r \<and>
        res_session_id r = ''session-123e4567-e89b-42d3-a456-426614174000'')"
  using resolve_never_raises [of "PList [PTuple [PStr ''__SID__:'', PStr []]]" world_ok "''triage''"]
  by (simp add: resolve_entry new_session_list startswith_def MARKER_PREFIX_def world_ok_def
      SESSION_ID_PREFIX_def)

text \<open>
  C6, marker absence. As stated the claim fails: an entry whose first field starts with
  the prefix is taken for a marker although its second field is not empty, so it does
  not have the marker shape and yet it is stripped and its id is returned.
\<close>

theorem marker_absence_counterexample:
  "\<not> marker_shape (PTuple [PStr ''__SID__:abc'', PStr ''x'']) \<and>
   decode_history (PList [PTuple [PStr ''__SID__:abc'', PStr ''x'']]) = (Some ''abc'', PList []) \<and>
   decode_history (PList [PTuple [PStr ''__SID__:abc'', PStr ''x'']]) \<noteq>
     (None, PList [PTuple [PStr ''__SID__:abc'', PStr ''x'']])"
  by (simp add: decode_history_entry startswith_def MARKER_PREFIX_def)

text \<open>
  C6 as amended. For every history, \<^verbatim>\<open>None\<close> and the empty list among them, whose
  first entry is not a list or tuple that starts with a string beginning with
  \<^verbatim>\<open>__SID__:\<close>, decoding finds no session and leaves the history unchanged.
\<close>

theorem marker_absence:
  assumes "\<not> carries_marker H"
  shows "decode_history H = (None, H)"
proof (cases H)
  case (PList xs)
  with assms show ?thesis
    by (cases xs)
      (auto simp add: carries_marker_def decode_history_nil decode_history_entry
        split: option.splits)
qed (simp_all add: decode_history_non_list)

theorem marker_absence_witness:
  "\<not> carries_marker PNone \<and> decode_history PNone = (None, PNone) \<and>
   \<not> carries_marker (PList []) \<and> decode_history (PList []) = (None, PList []) \<and>
   \<not> carries_marker (PList [PTuple [PStr ''Hello'', PStr ''Hi'']]) \<and>
   decode_history (PList [PTuple [PStr ''Hello'', PStr ''Hi'']]) =
     (None, PList [PTuple [PStr ''Hello'', PStr ''Hi'']])"
  using marker_absence [of PNone] marker_absence [of "PList []"]
    marker_absence [of "PList [PTuple [PStr ''Hello'', PStr ''Hi'']]"]
  by (simp add: carries_marker_def startswith_def MARKER_PREFIX_def)

text \<open>
  C7, reuse path. When the history starts with a valid marker for \<open>sid\<close>, the turn
  uses exactly \<open>sid\<close>, does not enter the registration block, keeps as history (and as
  history to return) the incoming history without the marker entry, and dispatches the
  message under \<open>sid\<close>.
\<close>

theorem reuse_path:
  assumes "valid_marker sid m"
  shows "resolve_session w (PList (m # H)) a =
       Inr \<lparr>res_session_id = sid, res_history = PList H,
            res_history_to_return = PList H, res_registration = None\<rparr> \<and>
     chat_fn w message (PList (m # H)) a = run_agent_sync w message a sid"
proof -
  from assms have "marker_id m = Some sid" and "sid \<noteq> []"
    by (simp_all add: valid_marker_id)
  then have "resolve_session w (PList (m # H)) a =
       Inr \<lparr>res_session_id = sid, res_history = PList H,
            res_history_to_return = PList H, res_registration = None\<rparr>"
    by (rule resolve_reuse)
  then show ?thesis
    by (simp add: chat_fn_def bind_e_def)
qed

text \<open>The scenario of the specification: the history holds the marker alone.\<close>

theorem reuse_path_witness:
  "valid_marker ''session-abc123'' (PTuple [PStr ''__SID__:session-abc123'', PStr []]) \<and>
   resolve_session world_ok (PList [PTuple [PStr ''__SID__:session-abc123'', PStr []]]) ''triage'' =
     Inr \<lparr>res_session_id = ''session-abc123'', res_history = PList [],
          res_history_to_return = PList [], res_registration = None\<rparr>"
  using reuse_path [of "''session-abc123''" "PTuple [PStr ''__SID__:session-abc123'', PStr []]"
      world_ok "[]" "''triage''" "''Again''"]
  by (simp add: valid_marker_def MARKER_PREFIX_def)

text \<open>
  C8, a failed registration is passed over. The callback runs on a thread whose event
  loop is running. The registration of the minted id fails at line 96 and the failure
  is passed over, as the claim says; the turn goes on to dispatch the message, and there
  the exception that the handler of line 48 raises leaves \<^verbatim>\<open>run_agent_sync\<close> and
  \<^verbatim>\<open>chat_fn\<close>: the turn returns no reply.
\<close>

theorem registration_failure_then_no_reply:
  "register_session_try world_loop_running_throughout ''triage''
       (SESSION_ID_PREFIX @ uuid4 world_loop_running_throughout) = Inl loop_running \<and>
   register_session world_loop_running_throughout ''triage''
       (SESSION_ID_PREFIX @ uuid4 world_loop_running_throughout) = Inr () \<and>
   session_absent PNone \<and>
   chat_fn world_loop_running_throughout ''Hello'' PNone ''triage'' = Inl loop_running"
  by (simp add: register_session_try_def register_session_def try_finally_def
      loop_cleanup_def raise_if_def session_absent_def decode_history_non_list
      chat_fn_def resolve_none new_session_none bind_e_def run_agent_sync_def
      run_agent_fallback_def world_loop_running_throughout_def world_loop_running_def
      world_ok_def loop_running_def)

text \<open>
  C9, shape of a minted id. Every session id the new-session branch returns is
  \<^verbatim>\<open>session-\<close> followed by the UUID string drawn for the turn; it is not empty and does
  not start with the marker prefix, and a later turn that receives its marker decodes
  the same id and reuses it without registering.
\<close>

theorem minted_id_shape:
  assumes "new_session w h a = Inr r"
  shows "res_session_id r = SESSION_ID_PREFIX @ uuid4 w \<and>
     res_session_id r = ''session-'' @ uuid4 w \<and>
     res_session_id r \<noteq> [] \<and>
     \<not> startswith (res_session_id r) MARKER_PREFIX \<and>
     resolve_session w' (PList (encode (res_session_id r) # H)) a' =
       Inr \<lparr>res_session_id = res_session_id r, res_history = PList H,
            res_history_to_return = PList H, res_registration = None\<rparr>"
proof -
  from assms have sid: "res_session_id r = SESSION_ID_PREFIX @ uuid4 w"
    by (auto simp add: new_session_def Let_def bind_e_def register_session_returns
        split: if_splits sum.splits)
  have ne: "SESSION_ID_PREFIX @ uuid4 w \<noteq> []"
    by simp
  have "\<not> startswith (SESSION_ID_PREFIX @ uuid4 w) MARKER_PREFIX"
    by (simp add: startswith_def SESSION_ID_PREFIX_def MARKER_PREFIX_def)
  with sid ne show ?thesis
    by (simp add: resolve_reuse SESSION_ID_PREFIX_def)
qed

theorem minted_id_shape_witness:
  "\<exists>r. new_session world_ok PNone ''triage'' = Inr r \<and>
     res_session_id r = ''session-123e4567-e89b-42d3-a456-426614174000''"
  using minted_id_shape [of world_ok PNone "''triage''" _ world_ok "[]" "''triage''"]
  by (simp add: new_session_none world_ok_def SESSION_ID_PREFIX_def)

text \<open>
  C10, lenient marker detection. A first entry that is a list or a tuple whose first
  element is a string starting with \<^verbatim>\<open>__SID__:\<close> is taken for a marker whatever
  follows in the entry: it is stripped, the id is the text after the first colon, and
  when that text is not empty it is the session id of the turn.
\<close>

theorem lenient_marker_detection:
  assumes "m = PList (PStr (MARKER_PREFIX @ x) # rest) \<or>
           m = PTuple (PStr (MARKER_PREFIX @ x) # rest)"
  shows "decode_history (PList (m # H)) = (Some x, PList H) \<and>
     x = drop 1 (dropWhile (\<lambda>c. c \<noteq> CHR '':'') (MARKER_PREFIX @ x)) \<and>
     (\<exists>r. resolve_session w (PList (m # H)) a = Inr r \<and> res_history r = PList H \<and>
          (if x = [] then res_session_id r = SESSION_ID_PREFIX @ uuid4 w
           else res_session_id r = x))"
proof -
  from assms have id: "marker_id m = Some x"
    by auto
  then have "decode_history (PList (m # H)) = (Some x, PList H)"
    by (simp add: decode_history_entry)
  moreover
  have "\<exists>r. resolve_session w (PList (m # H)) a = Inr r \<and> res_history r = PList H \<and>
          (if x = [] then res_session_id r = SESSION_ID_PREFIX @ uuid4 w
           else res_session_id r = x)"
    using id by (simp add: resolve_entry new_session_list)
  ultimately show ?thesis
    using after_first_colon [of x] by simp
qed

text \<open>The witness: an entry of one element, and one with a second field that is not empty.\<close>

theorem lenient_marker_detection_witness:
  "decode_history (PList [PList [PStr ''__SID__:abc'']]) = (Some ''abc'', PList []) \<and>
   decode_history (PList [PTuple [PStr ''__SID__:a:b'', PStr ''not empty'', PInt 7], PInt 1]) =
     (Some ''a:b'', PList [PInt 1]) \<and>
   (\<exists>r. resolve_session world_ok (PList [PList [PStr ''__SID__:abc'']]) ''triage'' = Inr r \<and>
        res_session_id r = ''abc'')"
  using lenient_marker_detection
      [of "PList [PStr ''__SID__:abc'']" "''abc''" "[]" "[]" world_ok "''triage''"]
    lenient_marker_detection
      [of "PTuple [PStr ''__SID__:a:b'', PStr ''not empty'', PInt 7]" "''a:b''"
        "[PStr ''not empty'', PInt 7]" "[PInt 1]" world_ok "''triage''"]
  by (auto simp add: MARKER_PREFIX_def)

end
